theory Spec2Isabelle
  imports Main
begin

section \<open>Values of the runtime\<close>

text \<open>
  The transport hands back whatever \<^verbatim>\<open>json.loads\<close> produced, and Python checks none of
  the annotations of \<^verbatim>\<open>gh_submit.py\<close> at run time. A response is therefore an
  untyped JSON value. A dict is an association list read with \<open>map_of\<close>
  (the first binding of a key is the one that counts); JSON numbers are integers, the
  only numbers that occur in the responses this module reads. A str is a list of
  characters, each a code point below 256.
\<close>

datatype json =
    JNull
  | JBool bool
  | JInt int
  | JStr string
  | JArr "json list"
  | JObj "(string \<times> json) list"

text \<open>The exceptions a subscript can raise.\<close>

datatype exn = KeyError string | TypeError

text \<open>
  \<^verbatim>\<open>x[k]\<close> with a string key \<open>k\<close>: a dict raises \<^verbatim>\<open>KeyError\<close> when the key is
  missing; \<^verbatim>\<open>None\<close>, a bool and an int are not subscriptable, and a str or a list
  refuses a str index: each of them raises \<^verbatim>\<open>TypeError\<close>.
\<close>

fun getitem :: "json \<Rightarrow> string \<Rightarrow> exn + json" where
  "getitem (JObj kvs) k = (case map_of kvs k of None \<Rightarrow> Inl (KeyError k) | Some v \<Rightarrow> Inr v)"
| "getitem JNull k = Inl TypeError"
| "getitem (JBool b) k = Inl TypeError"
| "getitem (JInt i) k = Inl TypeError"
| "getitem (JStr s) k = Inl TypeError"
| "getitem (JArr xs) k = Inl TypeError"

text \<open>Sequencing of statements that may raise: the first exception ends the function.\<close>

definition bind_exn :: "exn + 'a \<Rightarrow> ('a \<Rightarrow> exn + 'b) \<Rightarrow> exn + 'b" where
  "bind_exn m f = (case m of Inl e \<Rightarrow> Inl e | Inr x \<Rightarrow> f x)"

text \<open>Truth value of \<^verbatim>\<open>if x:\<close>.\<close>

fun truthy :: "json \<Rightarrow> bool" where
  "truthy JNull = False"
| "truthy (JBool b) = b"
| "truthy (JInt i) = (i \<noteq> 0)"
| "truthy (JStr s) = (s \<noteq> [])"
| "truthy (JArr xs) = (xs \<noteq> [])"
| "truthy (JObj kvs) = (kvs \<noteq> [])"

subsection \<open>\<^verbatim>\<open>str()\<close> of a value, as an f-string interpolates it\<close>

fun str_nat :: "nat \<Rightarrow> string" where
  "str_nat n =
     (if n < 10 then [char_of (48 + n)]
      else str_nat (n div 10) @ [char_of (48 + n mod 10)])"

definition str_int :: "int \<Rightarrow> string" where
  "str_int i = (if i < 0 then CHR ''-'' # str_nat (nat (- i)) else str_nat (nat i))"

definition hex_digit :: "nat \<Rightarrow> char" where
  "hex_digit d = (if d < 10 then char_of (48 + d) else char_of (87 + d))"

text \<open>
  \<^verbatim>\<open>repr\<close> of a str: single quotes unless the text has a single quote and no double
  quote; the quote and the backslash are escaped, tab, newline and carriage return get
  their letter, and every other character that is not printable becomes \<^verbatim>\<open>\xNN\<close>.
  Below 256 the characters that are not printable are the control characters
  (0x00 to 0x1F and 0x7F to 0x9F), the no-break space 0xA0 and the soft hyphen 0xAD.
\<close>

definition printable :: "char \<Rightarrow> bool" where
  "printable c \<longleftrightarrow>
     (32::nat) \<le> of_char c \<and> \<not> ((127::nat) \<le> of_char c \<and> of_char c \<le> (160::nat))
     \<and> of_char c \<noteq> (173::nat)"


definition repr_char :: "char \<Rightarrow> char \<Rightarrow> string" where
  "repr_char q c =
     (if c = q \<or> c = CHR 0x5C then [CHR 0x5C, c]
      else if c = CHR 0x09 then [CHR 0x5C, CHR ''t'']
      else if c = CHR 0x0A then [CHR 0x5C, CHR ''n'']
      else if c = CHR 0x0D then [CHR 0x5C, CHR ''r'']
      else if \<not> printable c
        then [CHR 0x5C, CHR ''x'', hex_digit (of_char c div 16), hex_digit (of_char c mod 16)]
      else [c])"

definition repr_str :: "string \<Rightarrow> string" where
  "repr_str s =
     (let q = (if CHR 0x27 \<in> set s \<and> CHR 0x22 \<notin> set s then CHR 0x22 else CHR 0x27)
      in q # concat (map (repr_char q) s) @ [q])"

fun join :: "string \<Rightarrow> string list \<Rightarrow> string" where
  "join sep [] = []"
| "join sep [x] = x"
| "join sep (x # y # ys) = x @ sep @ join sep (y # ys)"

primrec py_repr :: "json \<Rightarrow> string" where
  "py_repr JNull = ''None''"
| "py_repr (JBool b) = (if b then ''True'' else ''False'')"
| "py_repr (JInt i) = str_int i"
| "py_repr (JStr s) = repr_str s"
| "py_repr (JArr xs) = ''['' @ join '', '' (map py_repr xs) @ '']''"
| "py_repr (JObj kvs) =
     ''{'' @ join '', '' (map (\<lambda>kv. repr_str (fst kv) @ '': '' @ snd kv)
                              (map (map_prod id py_repr) kvs)) @ ''}''"

definition py_str :: "json \<Rightarrow> string" where
  "py_str v = (case v of JStr s \<Rightarrow> s | _ \<Rightarrow> py_repr v)"


subsection \<open>The error message of an empty repository\<close>

text \<open>
  Modelled from the spec: \<^verbatim>\<open>edenscm.i18n\<close> is not among the sources. Its \<^verbatim>\<open>_\<close>
  looks a message up in the translation catalogue; the spec describes the message in
  the language of the source, so the catalogue here leaves every message as it is.
\<close>

definition gettext :: "string \<Rightarrow> string" where
  "gettext msg = msg"

text \<open>
  \<^verbatim>\<open>template % arg\<close> for a str \<open>arg\<close> and a template whose only conversion is one
  \<^verbatim>\<open>%s\<close>: the argument replaces it.
\<close>

fun percent_format :: "string \<Rightarrow> string \<Rightarrow> string" where
  "percent_format (c # d # cs) a =
     (if c = CHR ''%'' \<and> d = CHR ''s'' then a @ cs else c # percent_format (d # cs) a)"
| "percent_format cs a = cs"

definition no_default_branch_template :: string where
  "no_default_branch_template =
     ''This repository has no default branch. This is likely because it is empty.\<newline>\<newline>Consider using %s to initialize your\<newline>repository.\<newline>''"

section \<open>The transport and its results\<close>

text \<open>
  Modelled from the spec: \<^verbatim>\<open>ghstack.github_gh_cli\<close> is not among the sources. Its
  \<^verbatim>\<open>Result\<close> is exactly one of a success payload and an error message, and
  \<^verbatim>\<open>is_error()\<close> tells which.
\<close>

datatype 'a Result = Ok 'a | Error string

text \<open>An operation returns a \<open>Result\<close> (\<open>Inr\<close>) or raises (\<open>Inl\<close>).\<close>

type_synonym 'a outcome = "exn + 'a Result"

text \<open>\<^verbatim>\<open>_Params = Union[str, int, bool]\<close>\<close>

datatype param = PStr string | PInt int | PBool bool

text \<open>
  Modelled from the spec: \<^verbatim>\<open>make_request(params, hostname, endpoint?)\<close> is the one
  capability of the transport. It is a parameter of every operation: given the
  parameters, the host and the endpoint (\<open>None\<close> when the call omits it) it answers
  with a \<open>Result\<close> and changes the world \<open>'w\<close> it talks to.
\<close>

type_synonym 'w transport =
  "(string \<times> param) list \<Rightarrow> string \<Rightarrow> string option \<Rightarrow> 'w \<Rightarrow> json Result \<times> 'w"

text \<open>
  Modelled from the spec: the documents of \<^verbatim>\<open>consts/query.py\<close> are opaque text
  supplied from outside.
\<close>

record queries =
  GRAPHQL_GET_REPOSITORY :: string
  GRAPHQL_GET_PULL_REQUEST :: string
  GRAPHQL_UPDATE_PULL_REQUEST :: string
  GRAPHQL_CREATE_BRANCH :: string
  GRAPHQL_MERGE_BRANCH :: string
  GRAPHQL_GET_LOGIN :: string

text \<open>
  Modelled from the spec: \<^verbatim>\<open>PullRequestId\<close> of \<^verbatim>\<open>pullrequest.py\<close> is a
  (hostname, owner, name, number) tuple, and \<^verbatim>\<open>get_hostname()\<close> reads its hostname.
\<close>

datatype PullRequestId = PullRequestId
  (hostname: string)
  (owner: string)
  (name: string)
  (number: int)

definition get_hostname :: "PullRequestId \<Rightarrow> string" where
  "get_hostname pr = PullRequestId.hostname pr"

section \<open>Repository\<close>

text \<open>
  The dataclass \<^verbatim>\<open>Repository\<close>. The fields read from a response hold the JSON value
  found there; \<open>hostname\<close> is the argument of the caller. (Where an operation
  has a parameter named like a field, its definition binds the parameters with a
  \<open>\<lambda>\<close>, so that the source's names stay.)
\<close>

datatype Repository = Repository
  (id': json)
  (hostname: string)
  (owner: json)
  (name: json)
  (default_branch: json)
  (is_fork: json)
  (upstream: "Repository option")

text \<open>
  \<^verbatim>\<open>if self.upstream:\<close> tests an \<^verbatim>\<open>Optional[Repository]\<close>: \<^verbatim>\<open>None\<close> is false and an
  instance of the dataclass, which defines neither \<^verbatim>\<open>__bool__\<close> nor \<^verbatim>\<open>__len__\<close>, is
  true.
\<close>

definition get_base_branch :: "Repository \<Rightarrow> json" where
  "get_base_branch self =
     (case upstream self of
        Some u \<Rightarrow> default_branch u
      | None \<Rightarrow> default_branch self)"

definition get_upstream_owner_and_name :: "Repository \<Rightarrow> json \<times> json" where
  "get_upstream_owner_and_name self =
     (case upstream self of
        Some u \<Rightarrow> (owner u, name u)
      | None \<Rightarrow> (owner self, name self))"

text \<open>
  \<^verbatim>\<open>_parse_repository_from_dict(repo_obj, hostname, upstream=None)\<close>. The owner, the
  name and the default branch are read first; a null default branch ends the function
  with the error Result, and only otherwise are \<^verbatim>\<open>id\<close>, the name of the branch and
  \<^verbatim>\<open>isFork\<close> read, in the order of the arguments of the constructor.
\<close>

definition parse_repository_from_dict ::
  "json \<Rightarrow> string \<Rightarrow> Repository option \<Rightarrow> Repository outcome" where
  "parse_repository_from_dict repo_obj = (\<lambda>hostname upstream.
     bind_exn (getitem repo_obj ''owner'') (\<lambda>owner_obj.
     bind_exn (getitem owner_obj ''login'') (\<lambda>owner.
     bind_exn (getitem repo_obj ''name'') (\<lambda>name.
     bind_exn (getitem repo_obj ''defaultBranchRef'') (\<lambda>branch_ref.
       if branch_ref = JNull then
         Inr (Error (percent_format (gettext no_default_branch_template)
           (''https://'' @ hostname @ ''/'' @ py_str owner @ ''/'' @ py_str name @ ''/new/main'')))
       else
         bind_exn (getitem repo_obj ''id'') (\<lambda>ident.
         bind_exn (getitem branch_ref ''name'') (\<lambda>branch_name.
         bind_exn (getitem repo_obj ''isFork'') (\<lambda>fork.
           Inr (Ok (Repository ident hostname owner name branch_name fork upstream))))))))))"

text \<open>
  \<^verbatim>\<open>get_repository(hostname, owner, name)\<close>: one request; an error Result of the
  transport is returned as it is; a parent that is true is parsed first, without
  upstream, and its error Result is returned as it is; then the target is parsed with
  the parent as its upstream.
\<close>

definition get_repository ::
  "queries \<Rightarrow> 'w transport \<Rightarrow> string \<Rightarrow> string \<Rightarrow> string \<Rightarrow> 'w \<Rightarrow> Repository outcome \<times> 'w" where
  "get_repository query make_request = (\<lambda>hostname owner name w.
     (let params = [(''query'', PStr (GRAPHQL_GET_REPOSITORY query)),
                    (''owner'', PStr owner),
                    (''name'', PStr name)]
      in case make_request params hostname None w of
           (Error e, w') \<Rightarrow> (Inr (Error e), w')
         | (Ok ok, w') \<Rightarrow>
             (bind_exn (getitem ok ''data'') (\<lambda>data.
              bind_exn (getitem data ''repository'') (\<lambda>repo.
              bind_exn (getitem repo ''parent'') (\<lambda>parent.
                if truthy parent then
                  bind_exn (parse_repository_from_dict parent hostname None) (\<lambda>result.
                    case result of
                      Error e \<Rightarrow> Inr (Error e)
                    | Ok ok' \<Rightarrow>
                        (let upstream = ok'
                         in parse_repository_from_dict repo hostname (Some upstream)))
                else parse_repository_from_dict repo hostname None))), w')))"

section \<open>Pull requests, branches and the login\<close>

text \<open>
  Each of the remaining operations makes one request, returns an error Result of the
  transport as it is, and otherwise subscripts its way to the value it returns.
  \<^verbatim>\<open>create_pull_request\<close> returns the Result of the transport without looking at it.
\<close>

record PullRequestDetails =
  node_id :: json
  number :: int
  url :: json
  head_oid :: json
  head_branch_name :: json

definition get_pull_request_details ::
  "queries \<Rightarrow> 'w transport \<Rightarrow> PullRequestId \<Rightarrow> 'w \<Rightarrow> PullRequestDetails outcome \<times> 'w" where
  "get_pull_request_details query make_request pr w =
     (let params = [(''query'', PStr (GRAPHQL_GET_PULL_REQUEST query)),
                    (''owner'', PStr (PullRequestId.owner pr)),
                    (''name'', PStr (PullRequestId.name pr)),
                    (''number'', PInt (PullRequestId.number pr))]
      in case make_request params (get_hostname pr) None w of
           (Error e, w') \<Rightarrow> (Inr (Error e), w')
         | (Ok ok, w') \<Rightarrow>
             (bind_exn (getitem ok ''data'') (\<lambda>d.
              bind_exn (getitem d ''repository'') (\<lambda>r.
              bind_exn (getitem r ''pullRequest'') (\<lambda>data.
              bind_exn (getitem data ''id'') (\<lambda>ident.
              bind_exn (getitem data ''url'') (\<lambda>u.
              bind_exn (getitem data ''headRefOid'') (\<lambda>oid.
              bind_exn (getitem data ''headRefName'') (\<lambda>branch.
                Inr (Ok \<lparr>node_id = ident,
                         number = PullRequestId.number pr,
                         url = u,
                         head_oid = oid,
                         head_branch_name = branch\<rparr>)))))))), w'))"

definition create_pull_request_placeholder_issue ::
  "'w transport \<Rightarrow> string \<Rightarrow> string \<Rightarrow> string \<Rightarrow> 'w \<Rightarrow> json outcome \<times> 'w" where
  "create_pull_request_placeholder_issue make_request = (\<lambda>hostname owner name w.
     (let endpoint = ''repos/'' @ owner @ ''/'' @ name @ ''/issues'';
          params = [(''title'', PStr ''placeholder for pull request'')]
      in case make_request params hostname (Some endpoint) w of
           (Error e, w') \<Rightarrow> (Inr (Error e), w')
         | (Ok ok, w') \<Rightarrow>
             (bind_exn (getitem ok ''number'') (\<lambda>n. Inr (Ok n)), w')))"

definition create_pull_request ::
  "'w transport \<Rightarrow> string \<Rightarrow> string \<Rightarrow> string \<Rightarrow> string \<Rightarrow> string \<Rightarrow> string \<Rightarrow> int \<Rightarrow> bool
     \<Rightarrow> 'w \<Rightarrow> json outcome \<times> 'w" where
  "create_pull_request make_request = (\<lambda>hostname owner name base head body issue is_draft w.
     (let endpoint = ''repos/'' @ owner @ ''/'' @ name @ ''/pulls'';
          params = [(''base'', PStr base),
                    (''head'', PStr head),
                    (''body'', PStr body),
                    (''issue'', PInt issue),
                    (''draft'', PBool is_draft)]
      in case make_request params hostname (Some endpoint) w of
           (result, w') \<Rightarrow> (Inr result, w')))"

definition update_pull_request ::
  "queries \<Rightarrow> 'w transport \<Rightarrow> string \<Rightarrow> string \<Rightarrow> string \<Rightarrow> string \<Rightarrow> 'w \<Rightarrow> json outcome \<times> 'w" where
  "update_pull_request query make_request = (\<lambda>hostname node_id title body w.
     (let params = [(''query'', PStr (GRAPHQL_UPDATE_PULL_REQUEST query)),
                    (''pullRequestId'', PStr node_id),
                    (''title'', PStr title),
                    (''body'', PStr body)]
      in case make_request params hostname None w of
           (Error e, w') \<Rightarrow> (Inr (Error e), w')
         | (Ok ok, w') \<Rightarrow>
             (bind_exn (getitem ok ''data'') (\<lambda>d.
              bind_exn (getitem d ''updatePullRequest'') (\<lambda>u.
              bind_exn (getitem u ''pullRequest'') (\<lambda>p.
              bind_exn (getitem p ''id'') (\<lambda>ident. Inr (Ok ident))))), w')))"

definition create_branch ::
  "queries \<Rightarrow> 'w transport \<Rightarrow> string \<Rightarrow> string \<Rightarrow> string \<Rightarrow> string \<Rightarrow> 'w \<Rightarrow> json outcome \<times> 'w" where
  "create_branch query make_request = (\<lambda>hostname repo_id branch_name oid w.
     (let params = [(''query'', PStr (GRAPHQL_CREATE_BRANCH query)),
                    (''repositoryId'', PStr repo_id),
                    (''name'', PStr (''refs/heads/'' @ branch_name)),
                    (''oid'', PStr oid)]
      in case make_request params hostname None w of
           (Error e, w') \<Rightarrow> (Inr (Error e), w')
         | (Ok ok, w') \<Rightarrow>
             (bind_exn (getitem ok ''data'') (\<lambda>d.
              bind_exn (getitem d ''createRef'') (\<lambda>c.
              bind_exn (getitem c ''ref'') (\<lambda>r.
              bind_exn (getitem r ''id'') (\<lambda>ident. Inr (Ok ident))))), w')))"

definition merge_into_branch ::
  "queries \<Rightarrow> 'w transport \<Rightarrow> string \<Rightarrow> string \<Rightarrow> string \<Rightarrow> string \<Rightarrow> 'w \<Rightarrow> json outcome \<times> 'w" where
  "merge_into_branch query make_request = (\<lambda>hostname repo_id oid_to_merge branch_name w.
     (let params = [(''query'', PStr (GRAPHQL_MERGE_BRANCH query)),
                    (''repositoryId'', PStr repo_id),
                    (''base'', PStr branch_name),
                    (''head'', PStr oid_to_merge)]
      in case make_request params hostname None w of
           (Error e, w') \<Rightarrow> (Inr (Error e), w')
         | (Ok ok, w') \<Rightarrow>
             (bind_exn (getitem ok ''data'') (\<lambda>d.
              bind_exn (getitem d ''mergeBranch'') (\<lambda>m.
              bind_exn (getitem m ''mergeCommit'') (\<lambda>c.
              bind_exn (getitem c ''oid'') (\<lambda>oid. Inr (Ok oid))))), w')))"

definition get_username :: "queries \<Rightarrow> 'w transport \<Rightarrow> string \<Rightarrow> 'w \<Rightarrow> json outcome \<times> 'w" where
  "get_username query make_request = (\<lambda>hostname w.
     (let params = [(''query'', PStr (GRAPHQL_GET_LOGIN query))]
      in case make_request params hostname None w of
           (Error e, w') \<Rightarrow> (Inr (Error e), w')
         | (Ok ok, w') \<Rightarrow>
             (bind_exn (getitem ok ''data'') (\<lambda>d.
              bind_exn (getitem d ''viewer'') (\<lambda>v.
              bind_exn (getitem v ''login'') (\<lambda>login. Inr (Ok login)))), w')))"


section \<open>Notions the properties are stated with\<close>

text \<open>The login of the owner of a repository object, read as the parser reads it.\<close>

definition owner_login :: "json \<Rightarrow> exn + json" where
  "owner_login repo_obj =
     bind_exn (getitem repo_obj ''owner'') (\<lambda>owner_obj. getitem owner_obj ''login'')"

text \<open>Reading a chain of keys, one subscript after the other.\<close>

fun getpath :: "json \<Rightarrow> string list \<Rightarrow> exn + json" where
  "getpath v [] = Inr v"
| "getpath v (k # ks) = bind_exn (getitem v k) (\<lambda>x. getpath x ks)"

definition has_path :: "json \<Rightarrow> string list \<Rightarrow> bool" where
  "has_path v ks = (case getpath v ks of Inr x \<Rightarrow> True | Inl e \<Rightarrow> False)"

definition str_at :: "json \<Rightarrow> string \<Rightarrow> bool" where
  "str_at obj k = (case getitem obj k of Inr (JStr s) \<Rightarrow> True | _ \<Rightarrow> False)"

text \<open>
  A repository object as the service sends it for the fields that
  \<^verbatim>\<open>_parse_repository_from_dict\<close> reads: \<^verbatim>\<open>id\<close>, \<^verbatim>\<open>owner.login\<close> and \<^verbatim>\<open>name\<close> are
  strings, \<^verbatim>\<open>isFork\<close> is a boolean, and \<^verbatim>\<open>defaultBranchRef\<close> is null or an object
  with a string \<^verbatim>\<open>name\<close>.
\<close>

definition wf_repo_obj :: "json \<Rightarrow> bool" where
  "wf_repo_obj obj \<longleftrightarrow>
     str_at obj ''id''
     \<and> (case getitem obj ''owner'' of Inr owner_obj \<Rightarrow> str_at owner_obj ''login'' | Inl e \<Rightarrow> False)
     \<and> str_at obj ''name''
     \<and> (case getitem obj ''isFork'' of Inr (JBool b) \<Rightarrow> True | _ \<Rightarrow> False)
     \<and> (case getitem obj ''defaultBranchRef'' of
          Inr JNull \<Rightarrow> True
        | Inr branch_ref \<Rightarrow> str_at branch_ref ''name''
        | Inl e \<Rightarrow> False)"

text \<open>
  A response to the repository query: \<^verbatim>\<open>data.repository\<close> is a repository object whose
  \<^verbatim>\<open>parent\<close> is null or a repository object.
\<close>

definition wf_repository_response :: "json \<Rightarrow> bool" where
  "wf_repository_response resp =
     (case getpath resp [''data'', ''repository''] of
        Inr repo \<Rightarrow>
          wf_repo_obj repo
          \<and> (case getitem repo ''parent'' of
               Inr parent \<Rightarrow> parent = JNull \<or> wf_repo_obj parent
             | Inl e \<Rightarrow> False)
      | Inl e \<Rightarrow> False)"

text \<open>\<^verbatim>\<open>sub in s\<close> for two strs: \<open>sub\<close> occurs in \<open>s\<close> as a contiguous piece.\<close>

fun starts_with :: "string \<Rightarrow> string \<Rightarrow> bool" where
  "starts_with s [] = True"
| "starts_with [] (c # sub) = False"
| "starts_with (d # s) (c # sub) = (d = c \<and> starts_with s sub)"

fun contains :: "string \<Rightarrow> string \<Rightarrow> bool" where
  "contains [] sub = (sub = [])"
| "contains (d # s) sub = (starts_with (d # s) sub \<or> contains s sub)"

subsection \<open>Observing the transport\<close>

text \<open>A request as the transport receives it.\<close>

record request =
  req_params :: "(string \<times> param) list"
  req_hostname :: string
  req_endpoint :: "string option"

text \<open>A transport that also keeps the list of the requests it was given, in order.\<close>

definition recording :: "'w transport \<Rightarrow> ('w \<times> request list) transport" where
  "recording make_request params host endpoint s =
     (case make_request params host endpoint (fst s) of
        (result, w') \<Rightarrow>
          (result,
           (w', snd s @ [\<lparr>req_params = params, req_hostname = host, req_endpoint = endpoint\<rparr>])))"

text \<open>A transport that gives every request the same answer.\<close>

definition answering :: "json Result \<Rightarrow> unit transport" where
  "answering result params host endpoint w = (result, w)"

subsection \<open>Example inputs\<close>

definition example_queries :: queries where
  "example_queries =
     \<lparr>GRAPHQL_GET_REPOSITORY = ''query GetRepository'',
      GRAPHQL_GET_PULL_REQUEST = ''query GetPullRequest'',
      GRAPHQL_UPDATE_PULL_REQUEST = ''mutation UpdatePullRequest'',
      GRAPHQL_CREATE_BRANCH = ''mutation CreateBranch'',
      GRAPHQL_MERGE_BRANCH = ''mutation MergeBranch'',
      GRAPHQL_GET_LOGIN = ''query GetLogin''\<rparr>"

text \<open>The fields of a repository object, without its \<^verbatim>\<open>parent\<close>.\<close>

definition repo_fields :: "string \<Rightarrow> string \<Rightarrow> string \<Rightarrow> bool \<Rightarrow> json \<Rightarrow> (string \<times> json) list" where
  "repo_fields ident login nm fork branch_ref =
     [(''id'', JStr ident),
      (''owner'', JObj [(''id'', JStr ''O_1''), (''login'', JStr login)]),
      (''name'', JStr nm),
      (''isFork'', JBool fork),
      (''defaultBranchRef'', branch_ref)]"

definition repository_response :: "(string \<times> json) list \<Rightarrow> json \<Rightarrow> json" where
  "repository_response kvs parent =
     JObj [(''data'', JObj [(''repository'', JObj (kvs @ [(''parent'', parent)]))])]"

definition branch :: "string \<Rightarrow> json" where
  "branch nm = JObj [(''name'', JStr nm)]"

text \<open>The fork \<^verbatim>\<open>acme/widgets\<close> of \<^verbatim>\<open>upstream-org/widgets\<close>.\<close>

definition fork_response :: json where
  "fork_response =
     repository_response (repo_fields ''R_1'' ''acme'' ''widgets'' True (branch ''dev''))
       (JObj (repo_fields ''R_0'' ''upstream-org'' ''widgets'' False (branch ''main'')))"

text \<open>The same, with a parent that is itself a fork.\<close>

definition fork_of_fork_response :: json where
  "fork_of_fork_response =
     repository_response (repo_fields ''R_1'' ''acme'' ''widgets'' True (branch ''dev''))
       (JObj (repo_fields ''R_0'' ''upstream-org'' ''widgets'' True (branch ''main'')))"

text \<open>A repository that is not marked as a fork and yet comes with a parent.\<close>

definition non_fork_with_parent_response :: json where
  "non_fork_with_parent_response =
     repository_response (repo_fields ''R_1'' ''acme'' ''widgets'' False (branch ''dev''))
       (JObj (repo_fields ''R_0'' ''upstream-org'' ''widgets'' False (branch ''main'')))"

text \<open>Empty repositories: the target, the parent, and both.\<close>

definition empty_repository_response :: json where
  "empty_repository_response =
     repository_response (repo_fields ''R_1'' ''acme'' ''widgets'' False JNull) JNull"

definition empty_parent_response :: json where
  "empty_parent_response =
     repository_response (repo_fields ''R_1'' ''acme'' ''widgets'' True (branch ''dev''))
       (JObj (repo_fields ''R_0'' ''upstream-org'' ''widgets'' False JNull))"

definition both_empty_response :: json where
  "both_empty_response =
     repository_response (repo_fields ''R_1'' ''acme'' ''widgets'' True JNull)
       (JObj (repo_fields ''R_0'' ''upstream-org'' ''widgets'' False JNull))"

text \<open>An empty fork of a repository that has a default branch.\<close>

definition empty_fork_response :: json where
  "empty_fork_response =
     repository_response (repo_fields ''R_1'' ''acme'' ''widgets'' True JNull)
       (JObj (repo_fields ''R_0'' ''upstream-org'' ''widgets'' False (branch ''main'')))"

text \<open>The empty fork \<^verbatim>\<open>acme/gadgets\<close> of the empty \<^verbatim>\<open>upstream-org/widgets\<close>.\<close>

definition empty_gadgets_response :: json where
  "empty_gadgets_response =
     repository_response (repo_fields ''R_2'' ''acme'' ''gadgets'' True JNull)
       (JObj (repo_fields ''R_0'' ''upstream-org'' ''widgets'' False JNull))"

text \<open>The repositories these responses resolve to.\<close>

definition upstream_org_widgets :: "bool \<Rightarrow> Repository" where
  "upstream_org_widgets fork =
     Repository (JStr ''R_0'') ''github.com'' (JStr ''upstream-org'') (JStr ''widgets'')
       (JStr ''main'') (JBool fork) None"

definition acme_widgets :: "bool \<Rightarrow> Repository option \<Rightarrow> Repository" where
  "acme_widgets fork up =
     Repository (JStr ''R_1'') ''github.com'' (JStr ''acme'') (JStr ''widgets'')
       (JStr ''dev'') (JBool fork) up"

text \<open>Responses to the other operations.\<close>

definition missing_pull_request_response :: json where
  "missing_pull_request_response =
     JObj [(''data'', JObj [(''repository'', JObj [(''pullRequest'', JNull)])])]"

definition update_response :: "string \<Rightarrow> json" where
  "update_response ident =
     JObj [(''data'', JObj [(''updatePullRequest'',
       JObj [(''pullRequest'', JObj [(''id'', JStr ident)])])])]"

text \<open>One response that has the fields of every operation.\<close>

definition complete_response :: json where
  "complete_response =
     JObj [(''number'', JInt 42),
           (''data'', JObj
             [(''repository'', JObj
                (repo_fields ''R_1'' ''acme'' ''widgets'' False (branch ''main'')
                 @ [(''parent'', JNull),
                    (''pullRequest'', JObj
                       [(''id'', JStr ''PR_1''),
                        (''url'', JStr ''https://github.com/acme/widgets/pull/7''),
                        (''headRefOid'', JStr ''0123abcd''),
                        (''headRefName'', JStr ''pr7'')])])),
              (''updatePullRequest'', JObj [(''pullRequest'', JObj [(''id'', JStr ''PR_1'')])]),
              (''createRef'', JObj [(''ref'', JObj [(''id'', JStr ''REF_1'')])]),
              (''mergeBranch'', JObj [(''mergeCommit'', JObj [(''oid'', JStr ''89ef4567'')])]),
              (''viewer'', JObj [(''login'', JStr ''alice'')])])]"

section \<open>Facts about the building blocks\<close>

lemma bind_exn_simps [simp]:
  "bind_exn (Inl e) f = Inl e"
  "bind_exn (Inr x) f = f x"
  by (simp_all add: bind_exn_def)

lemma percent_format_template:
  "percent_format (gettext no_default_branch_template) u =
     ''This repository has no default branch. This is likely because it is empty.\<newline>\<newline>Consider using '' @ u @ '' to initialize your\<newline>repository.\<newline>''"
  by (simp add: gettext_def no_default_branch_template_def)

text \<open>Only a dict with at least one key answers a subscript, and such a dict is true.\<close>

lemma getitem_truthy: "getitem v k = Inr x \<Longrightarrow> truthy v"
  by (cases v) auto

text \<open>The parser on a repository object without a default branch.\<close>

lemma parse_empty:
  assumes "owner_login repo_obj = Inr login" and "getitem repo_obj ''name'' = Inr nm"
    and "getitem repo_obj ''defaultBranchRef'' = Inr JNull"
  shows "parse_repository_from_dict repo_obj h up =
     Inr (Error (''This repository has no default branch. This is likely because it is empty.\<newline>\<newline>Consider using https://'' @ h @ ''/'' @ py_str login @ ''/'' @ py_str nm @ ''/new/main to initialize your\<newline>repository.\<newline>''))"
  using assms
  by (auto simp add: parse_repository_from_dict_def owner_login_def percent_format_template
      bind_exn_def split: sum.splits)

text \<open>What a parsed repository owes to the object and to the \<open>upstream\<close> argument.\<close>

lemma parse_Ok_fields:
  "parse_repository_from_dict repo_obj h up = Inr (Ok r) \<Longrightarrow>
     upstream r = up \<and> getitem repo_obj ''isFork'' = Inr (is_fork r)"
  by (auto simp add: parse_repository_from_dict_def bind_exn_def split: sum.splits if_splits)

text \<open>The resolver after a successful round trip.\<close>

lemma get_repository_Ok_response:
  assumes "make_request [(''query'', PStr (GRAPHQL_GET_REPOSITORY query)),
             (''owner'', PStr ow), (''name'', PStr nm)] h None w = (Ok resp, w')"
    and "getitem resp ''data'' = Inr data" and "getitem data ''repository'' = Inr repo"
    and "getitem repo ''parent'' = Inr parent"
  shows "fst (get_repository query make_request h ow nm w) =
     (if truthy parent
      then bind_exn (parse_repository_from_dict parent h None) (\<lambda>result.
             case result of Error e \<Rightarrow> Inr (Error e)
             | Ok u \<Rightarrow> parse_repository_from_dict repo h (Some u))
      else parse_repository_from_dict repo h None)"
  by (simp add: get_repository_def assms)

text \<open>Where a success of the resolver comes from.\<close>

lemma get_repository_Ok_inv:
  assumes "fst (get_repository query make_request h ow nm w) = Inr (Ok r)"
  shows "\<exists>resp data repo parent.
     fst (make_request [(''query'', PStr (GRAPHQL_GET_REPOSITORY query)),
            (''owner'', PStr ow), (''name'', PStr nm)] h None w) = Ok resp
     \<and> getitem resp ''data'' = Inr data \<and> getitem data ''repository'' = Inr repo
     \<and> getitem repo ''parent'' = Inr parent
     \<and> (if truthy parent
        then \<exists>u. parse_repository_from_dict parent h None = Inr (Ok u)
               \<and> parse_repository_from_dict repo h (Some u) = Inr (Ok r)
        else parse_repository_from_dict repo h None = Inr (Ok r))"
proof -
  let ?ps = "[(''query'', PStr (GRAPHQL_GET_REPOSITORY query)),
              (''owner'', PStr ow), (''name'', PStr nm)]"
  obtain res w' where mr: "make_request ?ps h None w = (res, w')"
    by (cases "make_request ?ps h None w")
  show ?thesis
  proof (cases res)
    case (Error e)
    with mr assms show ?thesis by (simp add: get_repository_def)
  next
    case (Ok resp)
    with mr assms show ?thesis
      by (auto simp add: get_repository_def bind_exn_def
          split: sum.splits if_splits Result.splits)
  qed
qed

section \<open>The derived values of a repository\<close>

text \<open>
  C2. \<^verbatim>\<open>get_base_branch()\<close> is the default branch of the upstream when there is one
  and the repository's own otherwise; \<^verbatim>\<open>get_upstream_owner_and_name()\<close> is the owner
  and name of the upstream when there is one and the repository's own otherwise. With
  an upstream, neither value is read from the fork's own fields.
\<close>

theorem derived_values_follow_upstream:
  "get_base_branch (Repository i h ow nm b f None) = b
   \<and> get_base_branch (Repository i h ow nm b f (Some u)) = default_branch u
   \<and> get_upstream_owner_and_name (Repository i h ow nm b f None) = (ow, nm)
   \<and> get_upstream_owner_and_name (Repository i h ow nm b f (Some u)) = (owner u, name u)"
  by (simp add: get_base_branch_def get_upstream_owner_and_name_def)

section \<open>Resolving a repository\<close>

text \<open>
  C5. Resolution follows one link of fork ancestry: the upstream of a repository that
  \<^verbatim>\<open>get_repository\<close> returns has no upstream of its own, whatever the response says
  about the parent being a fork.
\<close>

theorem upstream_of_upstream_absent:
  "fst (get_repository query make_request h ow nm w) = Inr (Ok r) \<Longrightarrow>
     upstream r = Some u \<Longrightarrow> upstream u = None"
  by (drule get_repository_Ok_inv) (auto split: if_splits dest!: parse_Ok_fields)

theorem upstream_of_upstream_absent_witness:
  "fst (get_repository example_queries (answering (Ok fork_of_fork_response))
          ''github.com'' ''acme'' ''widgets'' ()) =
     Inr (Ok (acme_widgets True (Some (upstream_org_widgets True))))
   \<and> upstream (acme_widgets True (Some (upstream_org_widgets True))) =
       Some (upstream_org_widgets True)
   \<and> is_fork (upstream_org_widgets True) = JBool True
   \<and> upstream (upstream_org_widgets True) = None"
proof -
  have run: "fst (get_repository example_queries (answering (Ok fork_of_fork_response))
          ''github.com'' ''acme'' ''widgets'' ()) =
     Inr (Ok (acme_widgets True (Some (upstream_org_widgets True))))"
    by (simp add: get_repository_def parse_repository_from_dict_def answering_def
        example_queries_def repository_response_def repo_fields_def branch_def
        acme_widgets_def upstream_org_widgets_def fork_of_fork_response_def)
  have up: "upstream (acme_widgets True (Some (upstream_org_widgets True))) =
       Some (upstream_org_widgets True)"
    by (simp add: acme_widgets_def)
  from upstream_of_upstream_absent [OF run up] run up show ?thesis
    by (simp add: upstream_org_widgets_def)
qed

text \<open>
  C1, as the code has it. \<^verbatim>\<open>is_fork\<close> is the \<^verbatim>\<open>isFork\<close> value of the response and
  \<^verbatim>\<open>upstream\<close> is absent exactly when the \<^verbatim>\<open>parent\<close> of the response is null (or
  another value that \<^verbatim>\<open>if parent:\<close> takes for false). The two are set independently
  of each other.
\<close>

theorem upstream_absent_iff_no_parent:
  assumes "fst (get_repository query make_request h ow nm w) = Inr (Ok r)"
  shows "\<exists>resp data repo parent.
     fst (make_request [(''query'', PStr (GRAPHQL_GET_REPOSITORY query)),
            (''owner'', PStr ow), (''name'', PStr nm)] h None w) = Ok resp
     \<and> getitem resp ''data'' = Inr data \<and> getitem data ''repository'' = Inr repo
     \<and> getitem repo ''parent'' = Inr parent
     \<and> getitem repo ''isFork'' = Inr (is_fork r)
     \<and> (upstream r = None) = (\<not> truthy parent)"
proof -
  from get_repository_Ok_inv [OF assms] obtain resp data repo parent where
    resp: "fst (make_request [(''query'', PStr (GRAPHQL_GET_REPOSITORY query)),
            (''owner'', PStr ow), (''name'', PStr nm)] h None w) = Ok resp"
    and path: "getitem resp ''data'' = Inr data" "getitem data ''repository'' = Inr repo"
      "getitem repo ''parent'' = Inr parent"
    and parsed: "if truthy parent
        then \<exists>u. parse_repository_from_dict parent h None = Inr (Ok u)
               \<and> parse_repository_from_dict repo h (Some u) = Inr (Ok r)
        else parse_repository_from_dict repo h None = Inr (Ok r)"
    by blast
  from parsed have "getitem repo ''isFork'' = Inr (is_fork r)"
    and "(upstream r = None) = (\<not> truthy parent)"
    by (auto split: if_splits dest!: parse_Ok_fields)
  with resp path show ?thesis
    by (intro exI [of _ resp] exI [of _ data] exI [of _ repo] exI [of _ parent]) simp
qed

theorem upstream_absent_iff_no_parent_witness:
  "fst (get_repository example_queries (answering (Ok fork_response))
          ''github.com'' ''acme'' ''widgets'' ()) =
     Inr (Ok (acme_widgets True (Some (upstream_org_widgets False))))
   \<and> (\<exists>resp data repo parent.
        fst (answering (Ok fork_response)
              [(''query'', PStr (GRAPHQL_GET_REPOSITORY example_queries)),
               (''owner'', PStr ''acme''), (''name'', PStr ''widgets'')] ''github.com'' None ()) =
          Ok resp
        \<and> getitem resp ''data'' = Inr data \<and> getitem data ''repository'' = Inr repo
        \<and> getitem repo ''parent'' = Inr parent
        \<and> getitem repo ''isFork'' =
            Inr (is_fork (acme_widgets True (Some (upstream_org_widgets False))))
        \<and> (upstream (acme_widgets True (Some (upstream_org_widgets False))) = None) =
            (\<not> truthy parent))"
proof -
  have run: "fst (get_repository example_queries (answering (Ok fork_response))
          ''github.com'' ''acme'' ''widgets'' ()) =
     Inr (Ok (acme_widgets True (Some (upstream_org_widgets False))))"
    by (simp add: get_repository_def parse_repository_from_dict_def answering_def
        example_queries_def repository_response_def repo_fields_def branch_def
        acme_widgets_def upstream_org_widgets_def fork_response_def)
  from upstream_absent_iff_no_parent [OF run] run show ?thesis
    by (intro conjI)
qed

theorem non_fork_with_upstream_counterexample:
  "fst (get_repository example_queries (answering (Ok non_fork_with_parent_response))
          ''github.com'' ''acme'' ''widgets'' ()) =
     Inr (Ok (acme_widgets False (Some (upstream_org_widgets False))))
   \<and> is_fork (acme_widgets False (Some (upstream_org_widgets False))) = JBool False
   \<and> upstream (acme_widgets False (Some (upstream_org_widgets False))) \<noteq> None"
  by (simp add: get_repository_def parse_repository_from_dict_def answering_def
        example_queries_def repository_response_def repo_fields_def branch_def
        acme_widgets_def upstream_org_widgets_def non_fork_with_parent_response_def)

text \<open>What a well-formed repository object holds, and what the parser makes of it.\<close>

lemma str_at_iff: "str_at obj k \<longleftrightarrow> (\<exists>s. getitem obj k = Inr (JStr s))"
  by (auto simp add: str_at_def split: sum.splits json.splits)

lemma wf_repo_obj_fields:
  assumes "wf_repo_obj obj"
  shows "\<exists>login nm. owner_login obj = Inr (JStr login) \<and> getitem obj ''name'' = Inr (JStr nm)"
  using assms
  by (auto simp add: wf_repo_obj_def owner_login_def str_at_iff split: sum.splits)

lemma parse_wf_branch:
  assumes "wf_repo_obj obj" and "getitem obj ''defaultBranchRef'' \<noteq> Inr JNull"
  shows "\<exists>r. parse_repository_from_dict obj h up = Inr (Ok r)"
  using assms
  by (auto simp add: wf_repo_obj_def parse_repository_from_dict_def str_at_iff
      split: sum.splits json.splits)

text \<open>
  C3, as the code has it. When the default branch of the target repository is null,
  \<^verbatim>\<open>get_repository\<close> returns an error Result, never a Repository, and the message
  suggests an address on the host for initializing a repository. The address names
  the owner and the name of the target unless the response has a parent whose default
  branch is null too: the parent is parsed first, and then the address names the
  owner and the name of the parent.
\<close>

theorem empty_target_is_error:
  assumes "make_request [(''query'', PStr (GRAPHQL_GET_REPOSITORY query)),
             (''owner'', PStr ow), (''name'', PStr nm)] h None w = (Ok resp, w')"
    and "getitem resp ''data'' = Inr data" and "getitem data ''repository'' = Inr repo"
    and "getitem repo ''parent'' = Inr parent"
    and "owner_login repo = Inr (JStr t_owner)" and "getitem repo ''name'' = Inr (JStr t_name)"
    and "getitem repo ''defaultBranchRef'' = Inr JNull"
    and "parent = JNull \<or> wf_repo_obj parent"
  shows "\<exists>a_owner a_name.
     fst (get_repository query make_request h ow nm w) =
       Inr (Error (''This repository has no default branch. This is likely because it is empty.\<newline>\<newline>Consider using https://'' @ h @ ''/'' @ a_owner @ ''/'' @ a_name @ ''/new/main to initialize your\<newline>repository.\<newline>''))
     \<and> (getitem parent ''defaultBranchRef'' \<noteq> Inr JNull \<longrightarrow>
          a_owner = t_owner \<and> a_name = t_name)
     \<and> (getitem parent ''defaultBranchRef'' = Inr JNull \<longrightarrow>
          owner_login parent = Inr (JStr a_owner) \<and> getitem parent ''name'' = Inr (JStr a_name))"
proof -
  note run = get_repository_Ok_response [where make_request = make_request, OF assms(1-4)]
  note target_error = parse_empty [OF assms(5-7)]
  show ?thesis
  proof (cases "truthy parent")
    case False
    then have "getitem parent ''defaultBranchRef'' \<noteq> Inr JNull"
      by (auto dest: getitem_truthy)
    with False run target_error show ?thesis
      by (simp add: py_str_def)
  next
    case True
    with assms(8) have wf: "wf_repo_obj parent" by auto
    from wf_repo_obj_fields [OF wf] obtain p_owner p_name where
      parent: "owner_login parent = Inr (JStr p_owner)"
        "getitem parent ''name'' = Inr (JStr p_name)"
      by blast
    show ?thesis
    proof (cases "getitem parent ''defaultBranchRef'' = Inr JNull")
      case empty: True
      from True run parse_empty [OF parent empty, of h None]
      have "fst (get_repository query make_request h ow nm w) =
        Inr (Error (''This repository has no default branch. This is likely because it is empty.\<newline>\<newline>Consider using https://'' @ h @ ''/'' @ p_owner @ ''/'' @ p_name @ ''/new/main to initialize your\<newline>repository.\<newline>''))"
        by (simp add: py_str_def)
      with empty parent show ?thesis by blast
    next
      case branch: False
      from parse_wf_branch [OF wf branch] obtain u where
        "parse_repository_from_dict parent h None = Inr (Ok u)"
        by blast
      with True run target_error [of h "Some u"]
      have "fst (get_repository query make_request h ow nm w) =
        Inr (Error (''This repository has no default branch. This is likely because it is empty.\<newline>\<newline>Consider using https://'' @ h @ ''/'' @ t_owner @ ''/'' @ t_name @ ''/new/main to initialize your\<newline>repository.\<newline>''))"
        by (simp add: py_str_def)
      with branch show ?thesis by blast
    qed
  qed
qed

theorem empty_target_is_error_witness:
  "fst (get_repository example_queries (answering (Ok empty_fork_response))
          ''github.com'' ''acme'' ''widgets'' ()) =
     Inr (Error ''This repository has no default branch. This is likely because it is empty.\<newline>\<newline>Consider using https://github.com/acme/widgets/new/main to initialize your\<newline>repository.\<newline>'')
   \<and> fst (get_repository example_queries (answering (Ok both_empty_response))
          ''github.com'' ''acme'' ''widgets'' ()) =
     Inr (Error ''This repository has no default branch. This is likely because it is empty.\<newline>\<newline>Consider using https://github.com/upstream-org/widgets/new/main to initialize your\<newline>repository.\<newline>'')"
proof -
  let ?parent = "JObj (repo_fields ''R_0'' ''upstream-org'' ''widgets'' False (branch ''main''))"
  let ?repo = "JObj (repo_fields ''R_1'' ''acme'' ''widgets'' True JNull @ [(''parent'', ?parent)])"
  let ?data = "JObj [(''repository'', ?repo)]"
  have 1: "answering (Ok empty_fork_response)
      [(''query'', PStr (GRAPHQL_GET_REPOSITORY example_queries)),
       (''owner'', PStr ''acme''), (''name'', PStr ''widgets'')] ''github.com'' None () =
      (Ok empty_fork_response, ())"
    by (simp add: answering_def)
  have 2: "getitem empty_fork_response ''data'' = Inr ?data"
    by (simp add: empty_fork_response_def repository_response_def)
  have 3: "getitem ?data ''repository'' = Inr ?repo" by simp
  have 4: "getitem ?repo ''parent'' = Inr ?parent" by (simp add: repo_fields_def)
  have 5: "owner_login ?repo = Inr (JStr ''acme'')"
    by (simp add: owner_login_def repo_fields_def)
  have 6: "getitem ?repo ''name'' = Inr (JStr ''widgets'')" by (simp add: repo_fields_def)
  have 7: "getitem ?repo ''defaultBranchRef'' = Inr JNull" by (simp add: repo_fields_def)
  have 8: "?parent = JNull \<or> wf_repo_obj ?parent"
    by (simp add: wf_repo_obj_def str_at_def repo_fields_def branch_def)
  have 9: "getitem ?parent ''defaultBranchRef'' \<noteq> Inr JNull"
    by (simp add: repo_fields_def branch_def)
  let ?parent' = "JObj (repo_fields ''R_0'' ''upstream-org'' ''widgets'' False JNull)"
  let ?repo' = "JObj (repo_fields ''R_1'' ''acme'' ''widgets'' True JNull @ [(''parent'', ?parent')])"
  let ?data' = "JObj [(''repository'', ?repo')]"
  have 11: "answering (Ok both_empty_response)
      [(''query'', PStr (GRAPHQL_GET_REPOSITORY example_queries)),
       (''owner'', PStr ''acme''), (''name'', PStr ''widgets'')] ''github.com'' None () =
      (Ok both_empty_response, ())"
    by (simp add: answering_def)
  have 12: "getitem both_empty_response ''data'' = Inr ?data'"
    by (simp add: both_empty_response_def repository_response_def)
  have 13: "getitem ?data' ''repository'' = Inr ?repo'" by simp
  have 14: "getitem ?repo' ''parent'' = Inr ?parent'" by (simp add: repo_fields_def)
  have 15: "owner_login ?repo' = Inr (JStr ''acme'')"
    by (simp add: owner_login_def repo_fields_def)
  have 16: "getitem ?repo' ''name'' = Inr (JStr ''widgets'')" by (simp add: repo_fields_def)
  have 17: "getitem ?repo' ''defaultBranchRef'' = Inr JNull" by (simp add: repo_fields_def)
  have 18: "?parent' = JNull \<or> wf_repo_obj ?parent'"
    by (simp add: wf_repo_obj_def str_at_def repo_fields_def)
  have 19: "getitem ?parent' ''defaultBranchRef'' = Inr JNull"
    by (simp add: repo_fields_def)
  have 20: "owner_login ?parent' = Inr (JStr ''upstream-org'')"
    by (simp add: owner_login_def repo_fields_def)
  have 21: "getitem ?parent' ''name'' = Inr (JStr ''widgets'')" by (simp add: repo_fields_def)
  from empty_target_is_error
      [where make_request = "answering (Ok empty_fork_response)", OF 1 2 3 4 5 6 7 8] 9
  have first: "fst (get_repository example_queries (answering (Ok empty_fork_response))
          ''github.com'' ''acme'' ''widgets'' ()) =
     Inr (Error ''This repository has no default branch. This is likely because it is empty.\<newline>\<newline>Consider using https://github.com/acme/widgets/new/main to initialize your\<newline>repository.\<newline>'')"
    by auto
  from empty_target_is_error
      [where make_request = "answering (Ok both_empty_response)", OF 11 12 13 14 15 16 17 18]
    19 20 21
  have second: "fst (get_repository example_queries (answering (Ok both_empty_response))
          ''github.com'' ''acme'' ''widgets'' ()) =
     Inr (Error ''This repository has no default branch. This is likely because it is empty.\<newline>\<newline>Consider using https://github.com/upstream-org/widgets/new/main to initialize your\<newline>repository.\<newline>'')"
    by auto
  from first second show ?thesis by (intro conjI)
qed

theorem empty_target_message_counterexample:
  "getpath empty_gadgets_response [''data'', ''repository'', ''defaultBranchRef''] = Inr JNull
   \<and> getpath empty_gadgets_response [''data'', ''repository'', ''owner'', ''login''] =
       Inr (JStr ''acme'')
   \<and> getpath empty_gadgets_response [''data'', ''repository'', ''name''] = Inr (JStr ''gadgets'')
   \<and> fst (get_repository example_queries (answering (Ok empty_gadgets_response))
            ''github.com'' ''acme'' ''gadgets'' ()) =
       Inr (Error ''This repository has no default branch. This is likely because it is empty.\<newline>\<newline>Consider using https://github.com/upstream-org/widgets/new/main to initialize your\<newline>repository.\<newline>'')
   \<and> \<not> contains ''This repository has no default branch. This is likely because it is empty.\<newline>\<newline>Consider using https://github.com/upstream-org/widgets/new/main to initialize your\<newline>repository.\<newline>'' ''acme''
   \<and> \<not> contains ''This repository has no default branch. This is likely because it is empty.\<newline>\<newline>Consider using https://github.com/upstream-org/widgets/new/main to initialize your\<newline>repository.\<newline>'' ''gadgets''"
proof -
  have fields:
    "getpath empty_gadgets_response [''data'', ''repository'', ''defaultBranchRef''] = Inr JNull"
    "getpath empty_gadgets_response [''data'', ''repository'', ''owner'', ''login''] =
       Inr (JStr ''acme'')"
    "getpath empty_gadgets_response [''data'', ''repository'', ''name''] = Inr (JStr ''gadgets'')"
    by (simp_all add: empty_gadgets_response_def repository_response_def repo_fields_def)
  have run: "fst (get_repository example_queries (answering (Ok empty_gadgets_response))
            ''github.com'' ''acme'' ''gadgets'' ()) =
       Inr (Error ''This repository has no default branch. This is likely because it is empty.\<newline>\<newline>Consider using https://github.com/upstream-org/widgets/new/main to initialize your\<newline>repository.\<newline>'')"
    by (simp add: get_repository_def parse_repository_from_dict_def answering_def
        example_queries_def repository_response_def repo_fields_def
        empty_gadgets_response_def percent_format_template py_str_def)
  have absent:
    "\<not> contains ''This repository has no default branch. This is likely because it is empty.\<newline>\<newline>Consider using https://github.com/upstream-org/widgets/new/main to initialize your\<newline>repository.\<newline>'' ''acme''"
    "\<not> contains ''This repository has no default branch. This is likely because it is empty.\<newline>\<newline>Consider using https://github.com/upstream-org/widgets/new/main to initialize your\<newline>repository.\<newline>'' ''gadgets''"
    by simp_all
  from fields run absent show ?thesis by (intro conjI)
qed

text \<open>
  C4. When the response has a parent whose default branch is null, \<^verbatim>\<open>get_repository\<close>
  returns the error Result that parsing the parent produced, as it is: the resolution
  fails, and no Repository without upstream is returned.
\<close>

theorem empty_parent_fails_resolution:
  assumes "make_request [(''query'', PStr (GRAPHQL_GET_REPOSITORY query)),
             (''owner'', PStr ow), (''name'', PStr nm)] h None w = (Ok resp, w')"
    and "getitem resp ''data'' = Inr data" and "getitem data ''repository'' = Inr repo"
    and "getitem repo ''parent'' = Inr parent"
    and "owner_login parent = Inr p_owner" and "getitem parent ''name'' = Inr p_name"
    and "getitem parent ''defaultBranchRef'' = Inr JNull"
  shows "fst (get_repository query make_request h ow nm w) =
           parse_repository_from_dict parent h None
     \<and> (\<exists>e. fst (get_repository query make_request h ow nm w) = Inr (Error e))"
  using get_repository_Ok_response [where make_request = make_request, OF assms(1-4)] parse_empty [OF assms(5-7), of h None]
    getitem_truthy [OF assms(6)]
  by simp

theorem empty_parent_fails_resolution_witness:
  "fst (get_repository example_queries (answering (Ok empty_parent_response))
          ''github.com'' ''acme'' ''widgets'' ()) =
     parse_repository_from_dict
       (JObj (repo_fields ''R_0'' ''upstream-org'' ''widgets'' False JNull)) ''github.com'' None
   \<and> (\<exists>e. fst (get_repository example_queries (answering (Ok empty_parent_response))
          ''github.com'' ''acme'' ''widgets'' ()) = Inr (Error e))"
proof -
  let ?parent = "JObj (repo_fields ''R_0'' ''upstream-org'' ''widgets'' False JNull)"
  let ?repo = "JObj (repo_fields ''R_1'' ''acme'' ''widgets'' True (branch ''dev'')
                 @ [(''parent'', ?parent)])"
  let ?data = "JObj [(''repository'', ?repo)]"
  have 1: "answering (Ok empty_parent_response)
      [(''query'', PStr (GRAPHQL_GET_REPOSITORY example_queries)),
       (''owner'', PStr ''acme''), (''name'', PStr ''widgets'')] ''github.com'' None () =
      (Ok empty_parent_response, ())"
    by (simp add: answering_def)
  have 2: "getitem empty_parent_response ''data'' = Inr ?data"
    by (simp add: empty_parent_response_def repository_response_def)
  have 3: "getitem ?data ''repository'' = Inr ?repo" by simp
  have 4: "getitem ?repo ''parent'' = Inr ?parent" by (simp add: repo_fields_def)
  have 5: "owner_login ?parent = Inr (JStr ''upstream-org'')"
    by (simp add: owner_login_def repo_fields_def)
  have 6: "getitem ?parent ''name'' = Inr (JStr ''widgets'')" by (simp add: repo_fields_def)
  have 7: "getitem ?parent ''defaultBranchRef'' = Inr JNull" by (simp add: repo_fields_def)
  from empty_parent_fails_resolution
      [where make_request = "answering (Ok empty_parent_response)", OF 1 2 3 4 5 6 7] show ?thesis .
qed

text \<open>
  C10. The parent is parsed before the target. When the default branches of both are
  null, the error Result is the one of the parent: its message gives the owner and the
  name of the parent.
\<close>

theorem parent_error_comes_first:
  assumes "make_request [(''query'', PStr (GRAPHQL_GET_REPOSITORY query)),
             (''owner'', PStr ow), (''name'', PStr nm)] h None w = (Ok resp, w')"
    and "getitem resp ''data'' = Inr data" and "getitem data ''repository'' = Inr repo"
    and "getitem repo ''parent'' = Inr parent"
    and "owner_login parent = Inr (JStr p_owner)" and "getitem parent ''name'' = Inr (JStr p_name)"
    and "getitem parent ''defaultBranchRef'' = Inr JNull"
    and "owner_login repo = Inr (JStr t_owner)" and "getitem repo ''name'' = Inr (JStr t_name)"
    and "getitem repo ''defaultBranchRef'' = Inr JNull"
  shows "fst (get_repository query make_request h ow nm w) =
     Inr (Error (''This repository has no default branch. This is likely because it is empty.\<newline>\<newline>Consider using https://'' @ h @ ''/'' @ p_owner @ ''/'' @ p_name @ ''/new/main to initialize your\<newline>repository.\<newline>''))"
  using get_repository_Ok_response [where make_request = make_request, OF assms(1-4)] parse_empty [OF assms(5-7), of h None]
    getitem_truthy [OF assms(6)]
  by (simp add: py_str_def)

theorem parent_error_comes_first_witness:
  "fst (get_repository example_queries (answering (Ok both_empty_response))
          ''github.com'' ''acme'' ''widgets'' ()) =
     Inr (Error ''This repository has no default branch. This is likely because it is empty.\<newline>\<newline>Consider using https://github.com/upstream-org/widgets/new/main to initialize your\<newline>repository.\<newline>'')"
proof -
  let ?parent = "JObj (repo_fields ''R_0'' ''upstream-org'' ''widgets'' False JNull)"
  let ?repo = "JObj (repo_fields ''R_1'' ''acme'' ''widgets'' True JNull @ [(''parent'', ?parent)])"
  let ?data = "JObj [(''repository'', ?repo)]"
  have 1: "answering (Ok both_empty_response)
      [(''query'', PStr (GRAPHQL_GET_REPOSITORY example_queries)),
       (''owner'', PStr ''acme''), (''name'', PStr ''widgets'')] ''github.com'' None () =
      (Ok both_empty_response, ())"
    by (simp add: answering_def)
  have 2: "getitem both_empty_response ''data'' = Inr ?data"
    by (simp add: both_empty_response_def repository_response_def)
  have 3: "getitem ?data ''repository'' = Inr ?repo" by simp
  have 4: "getitem ?repo ''parent'' = Inr ?parent" by (simp add: repo_fields_def)
  have 5: "owner_login ?parent = Inr (JStr ''upstream-org'')"
    by (simp add: owner_login_def repo_fields_def)
  have 6: "getitem ?parent ''name'' = Inr (JStr ''widgets'')" by (simp add: repo_fields_def)
  have 7: "getitem ?parent ''defaultBranchRef'' = Inr JNull" by (simp add: repo_fields_def)
  have 8: "owner_login ?repo = Inr (JStr ''acme'')"
    by (simp add: owner_login_def repo_fields_def)
  have 9: "getitem ?repo ''name'' = Inr (JStr ''widgets'')" by (simp add: repo_fields_def)
  have 10: "getitem ?repo ''defaultBranchRef'' = Inr JNull" by (simp add: repo_fields_def)
  from parent_error_comes_first
      [where make_request = "answering (Ok both_empty_response)", OF 1 2 3 4 5 6 7 8 9 10] show ?thesis by simp
qed

section \<open>Creating and updating a pull request\<close>

text \<open>
  C6. The one request of \<^verbatim>\<open>create_pull_request\<close> goes to
  \<^verbatim>\<open>repos/<owner>/<name>/pulls\<close>; its parameters have \<^verbatim>\<open>issue\<close>, set to the issue
  number given, and have no \<^verbatim>\<open>title\<close>.
\<close>

theorem create_pull_request_sends_issue_not_title:
  "\<exists>r. snd (snd (create_pull_request (recording make_request)
                    h ow nm base head body issue is_draft (w, []))) = [r]
     \<and> req_endpoint r = Some (''repos/'' @ ow @ ''/'' @ nm @ ''/pulls'')
     \<and> map_of (req_params r) ''issue'' = Some (PInt issue)
     \<and> ''title'' \<notin> fst ` set (req_params r)"
  by (simp add: create_pull_request_def recording_def Let_def split: prod.splits)

text \<open>
  C7. \<^verbatim>\<open>create_pull_request\<close> gives the transport exactly one request, whatever the
  answer is, and returns that answer as it is: after a failure no further request
  (closing, deleting or submitting the placeholder issue again) is made.
\<close>

theorem create_pull_request_single_request:
  "(let params = [(''base'', PStr base), (''head'', PStr head), (''body'', PStr body),
                  (''issue'', PInt issue), (''draft'', PBool is_draft)];
        endpoint = Some (''repos/'' @ ow @ ''/'' @ nm @ ''/pulls'');
        answer = make_request params h endpoint w
    in create_pull_request (recording make_request) h ow nm base head body issue is_draft (w, log) =
         (Inr (fst answer),
          (snd answer,
           log @ [\<lparr>req_params = params, req_hostname = h, req_endpoint = endpoint\<rparr>])))"
  by (simp add: create_pull_request_def recording_def Let_def split: prod.splits)

text \<open>
  C8, as the code has it. The payload of a successful \<^verbatim>\<open>update_pull_request\<close> is the
  id that the response carries at \<^verbatim>\<open>data.updatePullRequest.pullRequest.id\<close>; the
  \<^verbatim>\<open>node_id\<close> argument only goes into the request.
\<close>

theorem update_pull_request_returns_response_id:
  assumes "fst (update_pull_request query make_request h pr_id title body w) = Inr (Ok v)"
  shows "\<exists>resp.
     fst (make_request [(''query'', PStr (GRAPHQL_UPDATE_PULL_REQUEST query)),
            (''pullRequestId'', PStr pr_id), (''title'', PStr title),
            (''body'', PStr body)] h None w) = Ok resp
     \<and> getpath resp [''data'', ''updatePullRequest'', ''pullRequest'', ''id''] = Inr v"
  using assms
  by (auto simp add: update_pull_request_def bind_exn_def
      split: prod.splits Result.splits sum.splits)

theorem update_pull_request_returns_response_id_witness:
  "fst (update_pull_request example_queries (answering (Ok (update_response ''PR_1'')))
          ''github.com'' ''PR_1'' ''Fix the widget'' ''Details'' ()) = Inr (Ok (JStr ''PR_1''))
   \<and> (\<exists>resp.
        fst (answering (Ok (update_response ''PR_1''))
              [(''query'', PStr (GRAPHQL_UPDATE_PULL_REQUEST example_queries)),
               (''pullRequestId'', PStr ''PR_1''), (''title'', PStr ''Fix the widget''),
               (''body'', PStr ''Details'')] ''github.com'' None ()) = Ok resp
        \<and> getpath resp [''data'', ''updatePullRequest'', ''pullRequest'', ''id''] =
            Inr (JStr ''PR_1''))"
proof -
  have run: "fst (update_pull_request example_queries (answering (Ok (update_response ''PR_1'')))
          ''github.com'' ''PR_1'' ''Fix the widget'' ''Details'' ()) = Inr (Ok (JStr ''PR_1''))"
    by (simp add: update_pull_request_def answering_def update_response_def)
  from update_pull_request_returns_response_id [OF run] run show ?thesis
    by (intro conjI)
qed

theorem update_pull_request_echo_counterexample:
  "fst (update_pull_request example_queries (answering (Ok (update_response ''PR_2'')))
          ''github.com'' ''PR_1'' ''Fix the widget'' ''Details'' ()) = Inr (Ok (JStr ''PR_2''))
   \<and> JStr ''PR_2'' \<noteq> JStr ''PR_1''"
  by (simp add: update_pull_request_def answering_def update_response_def)

section \<open>Returning and raising\<close>

lemma parse_wf_returns:
  assumes "wf_repo_obj obj"
  shows "\<exists>r. parse_repository_from_dict obj h up = Inr r"
proof (cases "getitem obj ''defaultBranchRef'' = Inr JNull")
  case True
  from wf_repo_obj_fields [OF assms] obtain login nm where
    "owner_login obj = Inr (JStr login)" "getitem obj ''name'' = Inr (JStr nm)"
    by blast
  from parse_empty [OF this True] show ?thesis by blast
next
  case False
  from parse_wf_branch [OF assms False] show ?thesis by blast
qed

lemma get_repository_returns:
  "case fst (make_request [(''query'', PStr (GRAPHQL_GET_REPOSITORY query)),
               (''owner'', PStr ow), (''name'', PStr nm)] h None w) of
     Error e \<Rightarrow> fst (get_repository query make_request h ow nm w) = Inr (Error e)
   | Ok resp \<Rightarrow> wf_repository_response resp \<longrightarrow>
       (\<exists>r. fst (get_repository query make_request h ow nm w) = Inr r)"
proof -
  let ?ps = "[(''query'', PStr (GRAPHQL_GET_REPOSITORY query)),
              (''owner'', PStr ow), (''name'', PStr nm)]"
  obtain res w' where mr: "make_request ?ps h None w = (res, w')"
    by (cases "make_request ?ps h None w")
  show ?thesis
  proof (cases res)
    case (Error e)
    with mr show ?thesis by (simp add: get_repository_def)
  next
    case (Ok resp)
    have "\<exists>r. fst (get_repository query make_request h ow nm w) = Inr r"
      if wf: "wf_repository_response resp"
    proof -
      from wf obtain data repo parent where
        path: "getitem resp ''data'' = Inr data" "getitem data ''repository'' = Inr repo"
          "getitem repo ''parent'' = Inr parent"
        and repo: "wf_repo_obj repo" and parent: "parent = JNull \<or> wf_repo_obj parent"
        by (auto simp add: wf_repository_response_def bind_exn_def split: sum.splits)
      from mr Ok have "make_request ?ps h None w = (Ok resp, w')" by simp
      note run = get_repository_Ok_response [where make_request = make_request, OF this path]
      show ?thesis
      proof (cases "truthy parent")
        case False
        with run parse_wf_returns [OF repo, of h None] show ?thesis by simp
      next
        case True
        with parent have "wf_repo_obj parent" by auto
        from parse_wf_returns [OF this, of h None] obtain p where
          p: "parse_repository_from_dict parent h None = Inr p" by blast
        show ?thesis
        proof (cases p)
          case (Error e)
          with True run p show ?thesis by simp
        next
          case (Ok u)
          with True run p parse_wf_returns [OF repo, of h "Some u"] show ?thesis by simp
        qed
      qed
    qed
    with mr Ok show ?thesis by simp
  qed
qed

lemma get_pull_request_details_returns:
  "case fst (make_request [(''query'', PStr (GRAPHQL_GET_PULL_REQUEST query)),
               (''owner'', PStr (PullRequestId.owner pr)),
               (''name'', PStr (PullRequestId.name pr)),
               (''number'', PInt (PullRequestId.number pr))] (get_hostname pr) None w) of
     Error e \<Rightarrow> fst (get_pull_request_details query make_request pr w) = Inr (Error e)
   | Ok resp \<Rightarrow>
       list_all (\<lambda>k. has_path resp [''data'', ''repository'', ''pullRequest'', k])
         [''id'', ''url'', ''headRefOid'', ''headRefName''] \<longrightarrow>
       (\<exists>d. fst (get_pull_request_details query make_request pr w) = Inr (Ok d))"
  by (auto simp add: get_pull_request_details_def has_path_def bind_exn_def
      split: prod.splits Result.splits sum.splits)

lemma create_pull_request_placeholder_issue_returns:
  "case fst (make_request [(''title'', PStr ''placeholder for pull request'')] h
               (Some (''repos/'' @ ow @ ''/'' @ nm @ ''/issues'')) w) of
     Error e \<Rightarrow> fst (create_pull_request_placeholder_issue make_request h ow nm w) = Inr (Error e)
   | Ok resp \<Rightarrow> has_path resp [''number''] \<longrightarrow>
       (\<exists>v. fst (create_pull_request_placeholder_issue make_request h ow nm w) = Inr (Ok v))"
  by (auto simp add: create_pull_request_placeholder_issue_def has_path_def bind_exn_def
      split: prod.splits Result.splits sum.splits)

lemma create_pull_request_returns:
  "\<exists>r. fst (create_pull_request make_request h ow nm base head body issue is_draft w) = Inr r"
  by (simp add: create_pull_request_def Let_def split: prod.splits)

lemma update_pull_request_returns:
  "case fst (make_request [(''query'', PStr (GRAPHQL_UPDATE_PULL_REQUEST query)),
               (''pullRequestId'', PStr pr_id), (''title'', PStr title),
               (''body'', PStr body)] h None w) of
     Error e \<Rightarrow> fst (update_pull_request query make_request h pr_id title body w) = Inr (Error e)
   | Ok resp \<Rightarrow> has_path resp [''data'', ''updatePullRequest'', ''pullRequest'', ''id''] \<longrightarrow>
       (\<exists>v. fst (update_pull_request query make_request h pr_id title body w) = Inr (Ok v))"
  by (auto simp add: update_pull_request_def has_path_def bind_exn_def
      split: prod.splits Result.splits sum.splits)

lemma create_branch_returns:
  "case fst (make_request [(''query'', PStr (GRAPHQL_CREATE_BRANCH query)),
               (''repositoryId'', PStr repo_id),
               (''name'', PStr (''refs/heads/'' @ branch_name)),
               (''oid'', PStr oid)] h None w) of
     Error e \<Rightarrow> fst (create_branch query make_request h repo_id branch_name oid w) = Inr (Error e)
   | Ok resp \<Rightarrow> has_path resp [''data'', ''createRef'', ''ref'', ''id''] \<longrightarrow>
       (\<exists>v. fst (create_branch query make_request h repo_id branch_name oid w) = Inr (Ok v))"
  by (auto simp add: create_branch_def has_path_def bind_exn_def
      split: prod.splits Result.splits sum.splits)

lemma merge_into_branch_returns:
  "case fst (make_request [(''query'', PStr (GRAPHQL_MERGE_BRANCH query)),
               (''repositoryId'', PStr repo_id), (''base'', PStr branch_name),
               (''head'', PStr oid_to_merge)] h None w) of
     Error e \<Rightarrow>
       fst (merge_into_branch query make_request h repo_id oid_to_merge branch_name w) =
         Inr (Error e)
   | Ok resp \<Rightarrow> has_path resp [''data'', ''mergeBranch'', ''mergeCommit'', ''oid''] \<longrightarrow>
       (\<exists>v. fst (merge_into_branch query make_request h repo_id oid_to_merge branch_name w) =
              Inr (Ok v))"
  by (auto simp add: merge_into_branch_def has_path_def bind_exn_def
      split: prod.splits Result.splits sum.splits)

lemma get_username_returns:
  "case fst (make_request [(''query'', PStr (GRAPHQL_GET_LOGIN query))] h None w) of
     Error e \<Rightarrow> fst (get_username query make_request h w) = Inr (Error e)
   | Ok resp \<Rightarrow> has_path resp [''data'', ''viewer'', ''login''] \<longrightarrow>
       (\<exists>v. fst (get_username query make_request h w) = Inr (Ok v))"
  by (auto simp add: get_username_def has_path_def bind_exn_def
      split: prod.splits Result.splits sum.splits)

text \<open>
  C9, as the code has it. No operation handles an exception, so an operation returns
  a Result where its reads of the response succeed: an error Result of the transport
  comes back as it is, and a success whose response has the fields the operation reads
  gives a Result. (\<^verbatim>\<open>create_pull_request\<close> reads nothing and always returns.) On a
  response in which such a field is missing or null the subscript raises.
\<close>

theorem operations_return_results:
  "(case fst (make_request [(''query'', PStr (GRAPHQL_GET_REPOSITORY query)),
               (''owner'', PStr ow), (''name'', PStr nm)] h None w) of
     Error e \<Rightarrow> fst (get_repository query make_request h ow nm w) = Inr (Error e)
   | Ok resp \<Rightarrow> wf_repository_response resp \<longrightarrow>
       (\<exists>r. fst (get_repository query make_request h ow nm w) = Inr r))
   \<and> (case fst (make_request [(''query'', PStr (GRAPHQL_GET_PULL_REQUEST query)),
               (''owner'', PStr (PullRequestId.owner pr)),
               (''name'', PStr (PullRequestId.name pr)),
               (''number'', PInt (PullRequestId.number pr))] (get_hostname pr) None w) of
     Error e \<Rightarrow> fst (get_pull_request_details query make_request pr w) = Inr (Error e)
   | Ok resp \<Rightarrow>
       list_all (\<lambda>k. has_path resp [''data'', ''repository'', ''pullRequest'', k])
         [''id'', ''url'', ''headRefOid'', ''headRefName''] \<longrightarrow>
       (\<exists>d. fst (get_pull_request_details query make_request pr w) = Inr (Ok d)))
   \<and> (case fst (make_request [(''title'', PStr ''placeholder for pull request'')] h
               (Some (''repos/'' @ ow @ ''/'' @ nm @ ''/issues'')) w) of
     Error e \<Rightarrow> fst (create_pull_request_placeholder_issue make_request h ow nm w) = Inr (Error e)
   | Ok resp \<Rightarrow> has_path resp [''number''] \<longrightarrow>
       (\<exists>v. fst (create_pull_request_placeholder_issue make_request h ow nm w) = Inr (Ok v)))
   \<and> (\<exists>r. fst (create_pull_request make_request h ow nm base head body issue is_draft w) = Inr r)
   \<and> (case fst (make_request [(''query'', PStr (GRAPHQL_UPDATE_PULL_REQUEST query)),
               (''pullRequestId'', PStr pr_id), (''title'', PStr title),
               (''body'', PStr body)] h None w) of
     Error e \<Rightarrow> fst (update_pull_request query make_request h pr_id title body w) = Inr (Error e)
   | Ok resp \<Rightarrow> has_path resp [''data'', ''updatePullRequest'', ''pullRequest'', ''id''] \<longrightarrow>
       (\<exists>v. fst (update_pull_request query make_request h pr_id title body w) = Inr (Ok v)))
   \<and> (case fst (make_request [(''query'', PStr (GRAPHQL_CREATE_BRANCH query)),
               (''repositoryId'', PStr repo_id),
               (''name'', PStr (''refs/heads/'' @ branch_name)),
               (''oid'', PStr oid)] h None w) of
     Error e \<Rightarrow> fst (create_branch query make_request h repo_id branch_name oid w) = Inr (Error e)
   | Ok resp \<Rightarrow> has_path resp [''data'', ''createRef'', ''ref'', ''id''] \<longrightarrow>
       (\<exists>v. fst (create_branch query make_request h repo_id branch_name oid w) = Inr (Ok v)))
   \<and> (case fst (make_request [(''query'', PStr (GRAPHQL_MERGE_BRANCH query)),
               (''repositoryId'', PStr repo_id), (''base'', PStr branch_name),
               (''head'', PStr oid_to_merge)] h None w) of
     Error e \<Rightarrow>
       fst (merge_into_branch query make_request h repo_id oid_to_merge branch_name w) =
         Inr (Error e)
   | Ok resp \<Rightarrow> has_path resp [''data'', ''mergeBranch'', ''mergeCommit'', ''oid''] \<longrightarrow>
       (\<exists>v. fst (merge_into_branch query make_request h repo_id oid_to_merge branch_name w) =
              Inr (Ok v)))
   \<and> (case fst (make_request [(''query'', PStr (GRAPHQL_GET_LOGIN query))] h None w) of
     Error e \<Rightarrow> fst (get_username query make_request h w) = Inr (Error e)
   | Ok resp \<Rightarrow> has_path resp [''data'', ''viewer'', ''login''] \<longrightarrow>
       (\<exists>v. fst (get_username query make_request h w) = Inr (Ok v)))"
  by (intro conjI get_repository_returns get_pull_request_details_returns
      create_pull_request_placeholder_issue_returns create_pull_request_returns
      update_pull_request_returns create_branch_returns merge_into_branch_returns
      get_username_returns)

lemma wf_complete_response: "wf_repository_response complete_response"
  by (simp add: wf_repository_response_def wf_repo_obj_def str_at_def complete_response_def
      repo_fields_def branch_def)

lemma complete_response_paths:
  "list_all (\<lambda>k. has_path complete_response [''data'', ''repository'', ''pullRequest'', k])
     [''id'', ''url'', ''headRefOid'', ''headRefName'']"
  "has_path complete_response [''number'']"
  "has_path complete_response [''data'', ''updatePullRequest'', ''pullRequest'', ''id'']"
  "has_path complete_response [''data'', ''createRef'', ''ref'', ''id'']"
  "has_path complete_response [''data'', ''mergeBranch'', ''mergeCommit'', ''oid'']"
  "has_path complete_response [''data'', ''viewer'', ''login'']"
  by (simp_all add: has_path_def complete_response_def repo_fields_def branch_def)

theorem operations_return_results_witness:
  "(\<exists>r. fst (get_repository example_queries (answering (Ok complete_response))
             ''github.com'' ''acme'' ''widgets'' ()) = Inr r)
   \<and> (\<exists>d. fst (get_pull_request_details example_queries (answering (Ok complete_response))
             (PullRequestId ''github.com'' ''acme'' ''widgets'' 7) ()) = Inr (Ok d))
   \<and> (\<exists>v. fst (create_pull_request_placeholder_issue (answering (Ok complete_response))
             ''github.com'' ''acme'' ''widgets'' ()) = Inr (Ok v))
   \<and> (\<exists>r. fst (create_pull_request (answering (Ok complete_response))
             ''github.com'' ''acme'' ''widgets'' ''main'' ''pr7'' ''Details'' 42 False ()) = Inr r)
   \<and> (\<exists>v. fst (update_pull_request example_queries (answering (Ok complete_response))
             ''github.com'' ''PR_1'' ''Fix the widget'' ''Details'' ()) = Inr (Ok v))
   \<and> (\<exists>v. fst (create_branch example_queries (answering (Ok complete_response))
             ''github.com'' ''R_1'' ''pr7'' ''0123abcd'' ()) = Inr (Ok v))
   \<and> (\<exists>v. fst (merge_into_branch example_queries (answering (Ok complete_response))
             ''github.com'' ''R_1'' ''0123abcd'' ''pr7'' ()) = Inr (Ok v))
   \<and> (\<exists>v. fst (get_username example_queries (answering (Ok complete_response))
             ''github.com'' ()) = Inr (Ok v))"
  using operations_return_results
    [where make_request = "answering (Ok complete_response)" and query = example_queries
       and h = "''github.com''" and ow = "''acme''" and nm = "''widgets''" and w = "()"
       and pr = "PullRequestId ''github.com'' ''acme'' ''widgets'' 7"
       and base = "''main''" and head = "''pr7''" and body = "''Details''" and issue = 42
       and is_draft = False and pr_id = "''PR_1''" and title = "''Fix the widget''"
       and repo_id = "''R_1''" and branch_name = "''pr7''" and oid = "''0123abcd''"
       and oid_to_merge = "''0123abcd''"]
    wf_complete_response complete_response_paths
  by (simp add: answering_def)

theorem get_pull_request_details_raises_counterexample:
  "fst (get_pull_request_details example_queries (answering (Ok missing_pull_request_response))
          (PullRequestId ''github.com'' ''acme'' ''widgets'' 7) ()) = Inl TypeError"
  by (simp add: get_pull_request_details_def answering_def missing_pull_request_response_def)

end
